theory Spec2Isabelle
  imports Complex_Main "HOL-Library.Sublist"
begin

section \<open>Data model of the compliance run\<close>

text \<open>
  The three check categories, written in the source as the string literals
  \<^verbatim>\<open>'RLS' | 'MFA' | 'PITR'\<close>.
\<close>

datatype feature = RLS | MFA | PITR

text \<open>
  A JavaScript error value. \<open>UpstreamError\<close> is an error object handed back by the
  platform client in the \<open>error\<close> field of a response; \<open>TypeError\<close> is raised by the
  runtime when the handler iterates over \<open>null\<close> or reads an element of an empty array.
\<close>

datatype js_error = UpstreamError string | TypeError string

fun message :: "js_error \<Rightarrow> string" where
  "message (UpstreamError m) = m"
| "message (TypeError m) = m"

text \<open>
  Every call on the platform client resolves to an object \<^verbatim>\<open>{ data, error }\<close>.
  The client reports a failure of the platform in \<open>error\<close> and does not reject the
  promise, so the exceptions of a run are those the handler raises itself: the rethrown
  listing error and the runtime's type errors.
\<close>

record 'a response =
  data :: 'a
  error :: "js_error option"

record user =
  user_id :: string
  email :: "string option"
  factors :: "string list option"

record users_data =
  users :: "user list"

record mfa_result =
  mfa_id :: string
  mfa_email :: "string option"
  mfa_enabled :: bool

text \<open>
  The three security columns are shared by a row of \<^verbatim>\<open>check_rls_status\<close>
  (keyed by \<open>table_name\<close>) and by an entry of the report (keyed by \<open>table\<close>).
\<close>

record rls_status =
  rls_enabled :: bool
  has_policies :: bool
  policy_count :: int

record rls_row = rls_status +
  table_name :: string

record rls_result = rls_status +
  table :: string

record pitr_row =
  pitr_enabled :: "bool option"

text \<open>A row of table \<^verbatim>\<open>security_logs\<close>, as the handler inserts it.\<close>

record security_log =
  feature :: feature
  status :: bool
  resource_name :: "string option"
  suggested_fix :: "string option"
  auto_fixable :: bool

text \<open>
  The client made by \<^verbatim>\<open>createClient(projectUrl, serviceKey)\<close>: what each of its
  calls resolves to during one run. The read of the recent log rows depends on the rows
  in the table.
\<close>

record supabase_client =
  listUsers :: "users_data response"
  rpc_check_rls_status :: "rls_row list option response"
  rpc_check_pitr_status :: "pitr_row list option response"
  select_security_logs :: "security_log list \<Rightarrow> security_log list option response"

record compliance_report =
  report_MFA :: "mfa_result list"
  report_RLS :: "rls_result list"
  report_PITR :: bool
  report_logs :: "security_log list option response"

datatype checks_response =
    NotAuthenticated401
  | Checks200 compliance_report
  | ChecksFailed500 string js_error

record checks_request =
  cookies :: "string \<rightharpoonup> string"

section \<open>The audit logger\<close>

fun suggestedFixes :: "feature \<Rightarrow> string" where
  "suggestedFixes RLS =
     ''Enable RLS with: ALTER TABLE table_name ENABLE ROW LEVEL SECURITY; and add appropriate policies''"
| "suggestedFixes MFA =
     ''Enable MFA in authentication settings and require users to set up 2FA''"
| "suggestedFixes PITR =
     ''Enable PITR in your project settings for better backup and recovery options''"

fun autoFixable :: "feature \<Rightarrow> bool" where
  "autoFixable RLS = True"
| "autoFixable MFA = False"
| "autoFixable PITR = False"

text \<open>The object literal passed to \<^verbatim>\<open>insert\<close>.\<close>

definition security_log_row :: "feature \<Rightarrow> bool \<Rightarrow> string option \<Rightarrow> security_log" where
  "security_log_row f s resourceName =
     \<lparr> feature = f,
       status = s,
       resource_name = resourceName,
       suggested_fix = (if \<not> s then Some (suggestedFixes f) else None),
       auto_fixable = (if \<not> s then autoFixable f else False) \<rparr>"

text \<open>
  \<^verbatim>\<open>logSecurityIssue\<close> awaits one insert into \<^verbatim>\<open>security_logs\<close> and discards
  the response. The state is the list of rows inserted so far, oldest first.
\<close>

definition logSecurityIssue ::
  "feature \<Rightarrow> bool \<Rightarrow> string option \<Rightarrow> security_log list \<Rightarrow> security_log list" where
  "logSecurityIssue f s resourceName logs = logs @ [security_log_row f s resourceName]"

section \<open>The RLS provider\<close>

text \<open>The loop \<^verbatim>\<open>for (const table of rlsData)\<close>.\<close>

fun log_rls_tables :: "rls_row list \<Rightarrow> security_log list \<Rightarrow> security_log list" where
  "log_rls_tables [] logs = logs"
| "log_rls_tables (t # ts) logs =
     log_rls_tables ts
       (logSecurityIssue RLS (rls_enabled t \<and> has_policies t) (Some (table_name t)) logs)"

definition rls_result_of :: "rls_row \<Rightarrow> rls_result" where
  "rls_result_of t =
     \<lparr> rls_enabled = rls_enabled t,
       has_policies = has_policies t,
       policy_count = policy_count t,
       table = table_name t \<rparr>"

definition rls_fallback :: "rls_result list" where
  "rls_fallback =
     [\<lparr> rls_enabled = False, has_policies = False, policy_count = 0,
        table = ''posts_table'' \<rparr>]"

text \<open>
  \<^verbatim>\<open>checkRLSStatus\<close>: a reported error returns the fixed fallback list before any
  row is logged; \<open>null\<close> data without an error makes the loop raise.
\<close>

definition checkRLSStatus ::
  "supabase_client \<Rightarrow> security_log list \<Rightarrow> (js_error + rls_result list) \<times> security_log list" where
  "checkRLSStatus supabase logs =
     (case error (rpc_check_rls_status supabase) of
        Some rlsError \<Rightarrow> (Inr rls_fallback, logs)
      | None \<Rightarrow>
         (case data (rpc_check_rls_status supabase) of
            None \<Rightarrow> (Inl (TypeError ''rlsData is not iterable''), logs)
          | Some rlsData \<Rightarrow> (Inr (map rls_result_of rlsData), log_rls_tables rlsData logs)))"

section \<open>The run-checks handler\<close>

text \<open>\<^verbatim>\<open>!x\<close> for a cookie value: true for an absent cookie and for the empty string.\<close>

fun falsy :: "string option \<Rightarrow> bool" where
  "falsy None = True"
| "falsy (Some s) = (s = [])"

definition mfa_result_of :: "user \<Rightarrow> mfa_result" where
  "mfa_result_of u =
     \<lparr> mfa_id = user_id u,
       mfa_email = email u,
       mfa_enabled = (case factors u of None \<Rightarrow> False | Some fs \<Rightarrow> length fs > 0) \<rparr>"

text \<open>The loop \<^verbatim>\<open>for (const user of mfaResults)\<close>.\<close>

fun log_mfa_results :: "mfa_result list \<Rightarrow> security_log list \<Rightarrow> security_log list" where
  "log_mfa_results [] logs = logs"
| "log_mfa_results (u # us) logs =
     log_mfa_results us (logSecurityIssue MFA (mfa_enabled u) (mfa_email u) logs)"

text \<open>\<^verbatim>\<open>pitrData?.[0]?.pitr_enabled || false\<close>.\<close>

fun pitr_flag :: "pitr_row list option \<Rightarrow> bool" where
  "pitr_flag None = False"
| "pitr_flag (Some []) = False"
| "pitr_flag (Some (r # rs)) = (case pitr_enabled r of None \<Rightarrow> False | Some b \<Rightarrow> b)"

text \<open>
  The body of the \<^verbatim>\<open>try\<close> block. Rows inserted before an exception stay in
  the table, so the state is returned on both branches.
\<close>

definition run_checks_try ::
  "supabase_client \<Rightarrow> security_log list \<Rightarrow> (js_error + compliance_report) \<times> security_log list" where
  "run_checks_try supabase logs =
     (case error (listUsers supabase) of
        Some userError \<Rightarrow> (Inl userError, logs)
      | None \<Rightarrow>
         (let mfaResults = map mfa_result_of (users (data (listUsers supabase)));
              logs1 = log_mfa_results mfaResults logs
          in case checkRLSStatus supabase logs1 of
               (Inl e, logs2) \<Rightarrow> (Inl e, logs2)
             | (Inr rlsResults, logs2) \<Rightarrow>
                (let pitrData = data (rpc_check_pitr_status supabase);
                     logs3 = logSecurityIssue PITR (pitr_flag pitrData) None logs2
                 in (Inr \<lparr> report_MFA = mfaResults,
                           report_RLS = rlsResults,
                           report_PITR = pitr_flag pitrData,
                           report_logs = select_security_logs supabase logs3 \<rparr>,
                     logs3))))"

text \<open>
  The handler. \<open>createClient\<close> is the platform: the client it makes for a project URL
  and a service key.
\<close>

definition run_checks_GET ::
  "(string \<Rightarrow> string \<Rightarrow> supabase_client) \<Rightarrow> checks_request \<Rightarrow> security_log list
     \<Rightarrow> checks_response \<times> security_log list" where
  "run_checks_GET createClient req logs =
     (let projectUrl = cookies req ''projectUrl'';
          serviceKey = cookies req ''serviceKey''
      in if falsy projectUrl \<or> falsy serviceKey then (NotAuthenticated401, logs)
         else (case run_checks_try (createClient (the projectUrl) (the serviceKey)) logs of
                 (Inl e, logs') \<Rightarrow> (ChecksFailed500 (message e) e, logs')
               | (Inr report, logs') \<Rightarrow> (Checks200 report, logs')))"

section \<open>The remediation assistant\<close>

text \<open>A multi-line template literal: its lines joined by line feeds.\<close>

fun js_lines :: "string list \<Rightarrow> string" where
  "js_lines [] = []"
| "js_lines [l] = l"
| "js_lines (l # ls) = l @ CHR 0x0A # js_lines ls"

fun securityDocs :: "feature \<Rightarrow> string" where
  \<open>securityDocs RLS = js_lines
     ['''',
      ''    Enabling Row Level Security (RLS) in Supabase Dashboard:'',
      ''    1. Navigate to Authentication > Policies in your Supabase dashboard'',
      ''    2. Find the table you want to secure'',
      ''    3. Click "Enable RLS" button'',
      ''    4. Add policies through the UI:'',
      ''       - Click "New Policy"'',
      ''       - Use policy templates or create custom ones'',
      ''       - Set who can access what data'',
      ''    '',
      ''    Common settings:'',
      ''    - Enable read-only access'',
      ''    - Allow authenticated users only'',
      ''    - Enable full access for authenticated users'',
      ''    - Custom policy with specific conditions'',
      ''  '']\<close>
| \<open>securityDocs MFA = js_lines
     ['''',
      ''    Setting up Multi-Factor Authentication (MFA) in Supabase:'',
      ''    1. Go to Authentication > Providers in dashboard'',
      ''    2. Enable MFA in authentication settings'',
      ''    3. Guide users through MFA setup:'',
      ''       - Users go to account settings'',
      ''       - Click enable MFA'',
      ''       - Scan QR code with authenticator app'',
      ''       - Enter verification code'',
      ''    '',
      ''    Dashboard settings:'',
      ''    - Optional vs Required MFA'',
      ''    - Allowed authentication factors'',
      ''    - Recovery options'',
      ''    - User management'',
      ''  '']\<close>
| \<open>securityDocs PITR = js_lines
     ['''',
      ''    Enabling Point in Time Recovery (PITR) in Supabase:'',
      ''    1. Go to Database > Backups in dashboard'',
      ''    2. Find PITR section'',
      ''    3. Enable PITR feature'',
      ''    4. Select retention period'',
      ''    '',
      ''    Dashboard options:'',
      ''    - Backup frequency'',
      ''    - Retention period selection'',
      ''    - Recovery point status'',
      ''    - Backup health monitoring'',
      ''  '']\<close>

text \<open>
  A message as the chat-completion capability takes it, and an entry of the caller's
  transcript, which carries a timestamp besides.
\<close>

record chat_message =
  role :: string
  content :: string

record transcript_message = chat_message +
  timestamp :: string

record chat_body =
  chat_messages :: "transcript_message list"
  chat_feature :: feature
  chat_resourceName :: "string option"

record chat_request =
  model :: string
  request_messages :: "chat_message list"
  temperature :: rat
  max_tokens :: nat

record choice =
  choice_message :: chat_message

record completion =
  choices :: "choice list"

datatype chat_response =
    ChatMessage200 string
  | ChatFailed500 string

text \<open>
  The template literal \<^verbatim>\<open>systemPrompt\<close>. The resource line is empty when
  \<^verbatim>\<open>resourceName\<close> is absent or the empty string.
\<close>

definition systemPrompt :: "feature \<Rightarrow> string option \<Rightarrow> string" where
  "systemPrompt f resource =
     js_lines
       [''You are a Supabase security expert assistant. You help users fix security issues and implement best practices.'',
        ''    Current context: '' @ securityDocs f,
        ''    '' @ (if falsy resource then [] else ''Specifically for resource: '' @ the resource),
        ''    '',
        ''    Provide specific, actionable advice based on Supabase documentation. Include code examples when relevant.'']"

definition chat_request_of :: "chat_body \<Rightarrow> chat_request" where
  "chat_request_of body =
     \<lparr> model = ''gpt-4'',
       request_messages =
         \<lparr> role = ''system'', content = systemPrompt (chat_feature body) (chat_resourceName body) \<rparr>
         # map (\<lambda>msg. \<lparr> role = role msg, content = content msg \<rparr>) (chat_messages body),
       temperature = 7 / 10,
       max_tokens = 500 \<rparr>"

text \<open>
  The handler. \<open>create\<close> is the chat-completion capability; it and the parsing of the
  request body may raise, and so does reading the first choice of an empty list. Every
  exception is answered by the same 500 response.
\<close>

definition security_chat_POST ::
  "(chat_request \<Rightarrow> js_error + completion) \<Rightarrow> js_error + chat_body \<Rightarrow> chat_response" where
  "security_chat_POST create req_json =
     (case req_json of
        Inl e \<Rightarrow> ChatFailed500 ''Failed to process chat message''
      | Inr body \<Rightarrow>
         (case create (chat_request_of body) of
            Inl e \<Rightarrow> ChatFailed500 ''Failed to process chat message''
          | Inr completion \<Rightarrow>
             (case choices completion of
                [] \<Rightarrow> ChatFailed500 ''Failed to process chat message''
              | c # cs \<Rightarrow> ChatMessage200 (content (choice_message c)))))"

section \<open>The login handler\<close>

record login_body =
  projectUrl :: "string option"
  serviceKey :: "string option"

record cookie =
  cookie_name :: string
  cookie_value :: string
  httpOnly :: bool
  secure :: bool
  sameSite :: string
  path :: string

record login_response =
  login_status :: nat
  login_json :: "string \<times> string"
  set_cookies :: "cookie list"

definition session_cookie :: "string option \<Rightarrow> string \<Rightarrow> string \<Rightarrow> cookie" where
  "session_cookie NODE_ENV n v =
     \<lparr> cookie_name = n,
       cookie_value = v,
       httpOnly = True,
       secure = (NODE_ENV = Some ''production''),
       sameSite = ''lax'',
       path = ''/'' \<rparr>"

text \<open>
  The handler takes the environment variable and the parsed body only: the source makes
  no client and calls no platform here.
\<close>

definition login_POST :: "string option \<Rightarrow> js_error + login_body \<Rightarrow> login_response" where
  "login_POST NODE_ENV req_json =
     (case req_json of
        Inl e \<Rightarrow>
          \<lparr> login_status = 500, login_json = (''error'', ''Login failed''), set_cookies = [] \<rparr>
      | Inr body \<Rightarrow>
          if falsy (projectUrl body) \<or> falsy (serviceKey body)
          then \<lparr> login_status = 400, login_json = (''error'', ''Missing credentials''),
                 set_cookies = [] \<rparr>
          else \<lparr> login_status = 200, login_json = (''message'', ''Login successful''),
                 set_cookies =
                   [session_cookie NODE_ENV ''projectUrl'' (the (projectUrl body)),
                    session_cookie NODE_ENV ''serviceKey'' (the (serviceKey body))] \<rparr>)"

section \<open>Concrete runs\<close>

text \<open>The findings a response carries; an error response carries none.\<close>

fun reported_mfa :: "checks_response \<Rightarrow> mfa_result list" where
  "reported_mfa (Checks200 report) = report_MFA report"
| "reported_mfa NotAuthenticated401 = []"
| "reported_mfa (ChecksFailed500 m e) = []"

fun reported_rls :: "checks_response \<Rightarrow> rls_result list" where
  "reported_rls (Checks200 report) = report_RLS report"
| "reported_rls NotAuthenticated401 = []"
| "reported_rls (ChecksFailed500 m e) = []"

text \<open>
  A platform with a single project, whatever the credentials; a request that carries
  both session cookies; and a read of the log table that returns the ten newest rows.
\<close>

definition platform_of :: "supabase_client \<Rightarrow> string \<Rightarrow> string \<Rightarrow> supabase_client" where
  "platform_of c url key = c"

definition session_request :: checks_request where
  "session_request =
     \<lparr> cookies = [''projectUrl'' \<mapsto> ''https://demo.supabase.co'',
                  ''serviceKey'' \<mapsto> ''service-role-key''] \<rparr>"

definition recent_logs :: "security_log list \<Rightarrow> security_log list option response" where
  "recent_logs logs = \<lparr> data = Some (take 10 (rev logs)), error = None \<rparr>"

text \<open>
  Scenario A: two principals, one of them with a factor; one relation \<open>orders\<close> with
  RLS enabled and two policies; the PITR probe succeeds.
\<close>

definition scenario_A_client :: supabase_client where
  "scenario_A_client =
     \<lparr> listUsers =
         \<lparr> data = \<lparr> users =
                   [\<lparr> user_id = ''u1'', email = Some ''ann@example.com'', factors = Some [''totp''] \<rparr>,
                    \<lparr> user_id = ''u2'', email = Some ''bob@example.com'', factors = Some [] \<rparr>] \<rparr>,
           error = None \<rparr>,
       rpc_check_rls_status =
         \<lparr> data = Some [\<lparr> rls_enabled = True, has_policies = True, policy_count = 2,
                          table_name = ''orders'' \<rparr>],
           error = None \<rparr>,
       rpc_check_pitr_status = \<lparr> data = Some [\<lparr> pitr_enabled = Some True \<rparr>], error = None \<rparr>,
       select_security_logs = recent_logs \<rparr>"

text \<open>
  Scenario B: the project has one relation \<open>logs\<close>, and the RLS introspection fails on
  it; the PITR probe fails as well.
\<close>

definition scenario_B_client :: supabase_client where
  "scenario_B_client =
     \<lparr> listUsers =
         \<lparr> data = \<lparr> users =
                   [\<lparr> user_id = ''u1'', email = Some ''ann@example.com'', factors = Some [''totp''] \<rparr>] \<rparr>,
           error = None \<rparr>,
       rpc_check_rls_status =
         \<lparr> data = None, error = Some (UpstreamError ''permission denied for relation logs'') \<rparr>,
       rpc_check_pitr_status =
         \<lparr> data = None, error = Some (UpstreamError ''function check_pitr_status does not exist'') \<rparr>,
       select_security_logs = recent_logs \<rparr>"

text \<open>
  The listing of principals fails for a reason other than authentication; the RLS and
  PITR calls are healthy.
\<close>

definition listing_timeout_client :: supabase_client where
  "listing_timeout_client =
     scenario_A_client
       \<lparr> listUsers := \<lparr> data = \<lparr> users = [] \<rparr>, error = Some (UpstreamError ''upstream request timeout'') \<rparr> \<rparr>"

text \<open>The platform rejects the service key at the first call.\<close>

definition rejecting_client :: supabase_client where
  "rejecting_client =
     scenario_A_client
       \<lparr> listUsers := \<lparr> data = \<lparr> users = [] \<rparr>, error = Some (UpstreamError ''Invalid API key'') \<rparr> \<rparr>"

text \<open>The introspection reports a relation whose flag and count disagree.\<close>

definition inconsistent_rls_client :: supabase_client where
  "inconsistent_rls_client =
     scenario_A_client
       \<lparr> rpc_check_rls_status :=
           \<lparr> data = Some [\<lparr> rls_enabled = True, has_policies = True, policy_count = 0,
                            table_name = ''orders'' \<rparr>],
             error = None \<rparr> \<rparr>"

text \<open>
  A chat turn about relation \<open>orders\<close>: the opening assistant message and one user
  message; and a capability that answers every request with one fixed choice.
\<close>

definition orders_chat_body :: chat_body where
  "orders_chat_body =
     \<lparr> chat_messages =
         [\<lparr> role = ''assistant'', content = ''I am here to help you enable RLS for orders.'',
            timestamp = ''2024-05-01T10:00:00Z'' \<rparr>,
          \<lparr> role = ''user'', content = ''Where do I switch it on?'',
            timestamp = ''2024-05-01T10:00:30Z'' \<rparr>],
       chat_feature = RLS,
       chat_resourceName = Some ''orders'' \<rparr>"

text \<open>A first chat turn about PITR: no resource, nothing in the transcript yet.\<close>

definition pitr_chat_body :: chat_body where
  "pitr_chat_body = \<lparr> chat_messages = [], chat_feature = PITR, chat_resourceName = None \<rparr>"

definition canned_completion :: "chat_request \<Rightarrow> js_error + completion" where
  "canned_completion request =
     Inr \<lparr> choices =
           [\<lparr> choice_message =
                \<lparr> role = ''assistant'', content = ''Open Authentication > Policies.'' \<rparr> \<rparr>] \<rparr>"

section \<open>What a run writes and returns\<close>

text \<open>Both logging loops append one row per element, in order.\<close>

lemma log_mfa_results_append:
  "log_mfa_results ms logs =
     logs @ map (\<lambda>u. security_log_row MFA (mfa_enabled u) (mfa_email u)) ms"
  by (induction ms arbitrary: logs) (simp_all add: logSecurityIssue_def)

lemma log_rls_tables_append:
  "log_rls_tables ts logs =
     logs @ map (\<lambda>t. security_log_row RLS (rls_enabled t \<and> has_policies t) (Some (table_name t))) ts"
  by (induction ts arbitrary: logs) (simp_all add: logSecurityIssue_def)

text \<open>The three outcomes of the RLS provider.\<close>

lemma checkRLSStatus_error:
  "error (rpc_check_rls_status c) = Some e \<Longrightarrow> checkRLSStatus c logs = (Inr rls_fallback, logs)"
  by (simp add: checkRLSStatus_def)

lemma checkRLSStatus_rows:
  "error (rpc_check_rls_status c) = None \<Longrightarrow> data (rpc_check_rls_status c) = Some rows \<Longrightarrow>
   checkRLSStatus c logs =
     (Inr (map rls_result_of rows),
      logs @ map (\<lambda>t. security_log_row RLS (rls_enabled t \<and> has_policies t) (Some (table_name t))) rows)"
  by (simp add: checkRLSStatus_def log_rls_tables_append)

lemma checkRLSStatus_Inr_cases:
  assumes "checkRLSStatus c logs = (Inr fs, logs')"
  shows "(error (rpc_check_rls_status c) \<noteq> None \<and> fs = rls_fallback \<and> logs' = logs) \<or>
         (\<exists>rows. error (rpc_check_rls_status c) = None \<and> data (rpc_check_rls_status c) = Some rows \<and>
            fs = map rls_result_of rows \<and>
            logs' = logs @ map (\<lambda>t. security_log_row RLS (rls_enabled t \<and> has_policies t)
                                 (Some (table_name t))) rows)"
  using assms
  by (auto simp: checkRLSStatus_def log_rls_tables_append split: option.splits)

text \<open>The \<^verbatim>\<open>try\<close> block: a listing error is rethrown before anything is logged.\<close>

lemma run_checks_try_listing_error:
  "error (listUsers c) = Some e \<Longrightarrow> run_checks_try c logs = (Inl e, logs)"
  by (simp add: run_checks_try_def)

lemma run_checks_try_report:
  assumes "error (listUsers c) = None"
    and "checkRLSStatus c (log_mfa_results (map mfa_result_of (users (data (listUsers c)))) logs)
           = (Inr fs, logs2)"
  shows "run_checks_try c logs =
     (Inr \<lparr> report_MFA = map mfa_result_of (users (data (listUsers c))),
            report_RLS = fs,
            report_PITR = pitr_flag (data (rpc_check_pitr_status c)),
            report_logs = select_security_logs c
              (logs2 @ [security_log_row PITR (pitr_flag (data (rpc_check_pitr_status c))) None]) \<rparr>,
      logs2 @ [security_log_row PITR (pitr_flag (data (rpc_check_pitr_status c))) None])"
  using assms by (simp add: run_checks_try_def Let_def logSecurityIssue_def)

lemma run_checks_try_Inr_cases:
  assumes "run_checks_try c logs = (Inr rep, logs')"
  shows "error (listUsers c) = None \<and>
         report_MFA rep = map mfa_result_of (users (data (listUsers c))) \<and>
         report_PITR rep = pitr_flag (data (rpc_check_pitr_status c)) \<and>
         (\<exists>logs2. checkRLSStatus c (log_mfa_results (report_MFA rep) logs) = (Inr (report_RLS rep), logs2) \<and>
            logs' = logs2 @ [security_log_row PITR (report_PITR rep) None])"
  using assms
  by (auto simp: run_checks_try_def Let_def logSecurityIssue_def
      split: option.splits prod.splits sum.splits)

text \<open>The handler with both cookies present, and what a 200 response implies.\<close>

lemma run_checks_GET_session:
  assumes "cookies req ''projectUrl'' = Some u" "u \<noteq> []"
    and "cookies req ''serviceKey'' = Some k" "k \<noteq> []"
  shows "run_checks_GET cc req logs =
     (case run_checks_try (cc u k) logs of
        (Inl e, logs') \<Rightarrow> (ChecksFailed500 (message e) e, logs')
      | (Inr report, logs') \<Rightarrow> (Checks200 report, logs'))"
  using assms by (simp add: run_checks_GET_def)

lemma run_checks_GET_200_cases:
  assumes "run_checks_GET cc req logs = (Checks200 rep, logs')"
  shows "\<exists>u k. cookies req ''projectUrl'' = Some u \<and> u \<noteq> [] \<and>
           cookies req ''serviceKey'' = Some k \<and> k \<noteq> [] \<and>
           run_checks_try (cc u k) logs = (Inr rep, logs')"
  using assms
  by (cases "cookies req ''projectUrl''"; cases "cookies req ''serviceKey''")
     (auto simp: run_checks_GET_def Let_def split: if_splits prod.splits sum.splits)

lemma session_request_cookies:
  "cookies session_request ''projectUrl'' = Some ''https://demo.supabase.co''"
  "cookies session_request ''serviceKey'' = Some ''service-role-key''"
  by (simp_all add: session_request_def)

text \<open>
  When the introspection reports no error, a run that returns a report has appended one
  row per MFA finding, one per RLS finding and one for PITR, in that order.
\<close>

lemma audit_records_per_finding:
  assumes "run_checks_GET cc req logs = (Checks200 rep, logs')"
    and "cookies req ''projectUrl'' = Some u" "cookies req ''serviceKey'' = Some k"
    and "error (rpc_check_rls_status (cc u k)) = None"
  shows "logs' = logs
           @ map (\<lambda>f. security_log_row MFA (mfa_enabled f) (mfa_email f)) (report_MFA rep)
           @ map (\<lambda>f. security_log_row RLS (rls_enabled f \<and> has_policies f) (Some (table f)))
               (report_RLS rep)
           @ [security_log_row PITR (report_PITR rep) None]"
proof -
  from run_checks_GET_200_cases [OF assms(1)] assms(2,3)
  have t: "run_checks_try (cc u k) logs = (Inr rep, logs')" by auto
  from run_checks_try_Inr_cases [OF t] obtain logs2 where
    c: "checkRLSStatus (cc u k) (log_mfa_results (report_MFA rep) logs) = (Inr (report_RLS rep), logs2)"
    and l: "logs' = logs2 @ [security_log_row PITR (report_PITR rep) None]"
    by blast
  from checkRLSStatus_Inr_cases [OF c] assms(4) obtain rows where
    "report_RLS rep = map rls_result_of rows"
    "logs2 = log_mfa_results (report_MFA rep) logs
       @ map (\<lambda>t. security_log_row RLS (rls_enabled t \<and> has_policies t) (Some (table_name t))) rows"
    by auto
  with l show ?thesis
    by (simp add: log_mfa_results_append rls_result_of_def comp_def)
qed

text \<open>
  Whatever the outcome of a run, the table afterwards is the table before followed by
  rows that the logger built.
\<close>

lemma checkRLSStatus_appends:
  "\<exists>new. snd (checkRLSStatus c logs) = logs @ new \<and>
         (\<forall>x \<in> set new. \<exists>f s r. x = security_log_row f s r)"
  by (auto simp: checkRLSStatus_def log_rls_tables_append split: option.splits)

lemma run_checks_try_appends:
  "\<exists>new. snd (run_checks_try c logs) = logs @ new \<and>
         (\<forall>x \<in> set new. \<exists>f s r. x = security_log_row f s r)"
proof (cases "error (listUsers c)")
  case (Some e)
  then show ?thesis by (simp add: run_checks_try_listing_error)
next
  case None
  let ?logs1 = "log_mfa_results (map mfa_result_of (users (data (listUsers c)))) logs"
  obtain res logs2 where c: "checkRLSStatus c ?logs1 = (res, logs2)" by (cases "checkRLSStatus c ?logs1")
  from checkRLSStatus_appends [of c ?logs1] c obtain new2 where
    l2: "logs2 = ?logs1 @ new2" and r2: "\<forall>x \<in> set new2. \<exists>f s r. x = security_log_row f s r"
    by auto
  show ?thesis
  proof (cases res)
    case (Inl e)
    with None c have "snd (run_checks_try c logs) = logs2"
      by (simp add: run_checks_try_def Let_def)
    with l2 r2 show ?thesis
      by (auto simp: log_mfa_results_append)
  next
    case (Inr fs)
    with c have "checkRLSStatus c ?logs1 = (Inr fs, logs2)" by simp
    from run_checks_try_report [OF None this] l2 r2 show ?thesis
      by (auto simp: log_mfa_results_append)
  qed
qed

lemma run_checks_GET_appends:
  "\<exists>new. snd (run_checks_GET cc req logs) = logs @ new \<and>
         (\<forall>x \<in> set new. \<exists>f s r. x = security_log_row f s r)"
proof (cases "falsy (cookies req ''projectUrl'') \<or> falsy (cookies req ''serviceKey'')")
  case True
  then show ?thesis by (auto simp: run_checks_GET_def Let_def)
next
  case False
  then have "snd (run_checks_GET cc req logs) =
      snd (run_checks_try (cc (the (cookies req ''projectUrl'')) (the (cookies req ''serviceKey''))) logs)"
    by (auto simp: run_checks_GET_def Let_def split: prod.splits sum.splits)
  with run_checks_try_appends show ?thesis by simp
qed

text \<open>The fields of a row the logger builds.\<close>

lemma security_log_row_fields:
  "feature (security_log_row f s r) = f"
  "status (security_log_row f s r) = s"
  "resource_name (security_log_row f s r) = r"
  by (simp_all add: security_log_row_def)

lemma security_log_row_remediation:
  "(s \<longrightarrow> suggested_fix (security_log_row f s r) = None) \<and>
   (\<not> s \<longrightarrow> suggested_fix (security_log_row f s r) \<noteq> None \<and>
           auto_fixable (security_log_row f s r) = (f = RLS))"
  by (cases f) (simp_all add: security_log_row_def)

text \<open>Scenario A: the report, and the four rows the run writes.\<close>

lemma scenario_A_result:
  "run_checks_GET (platform_of scenario_A_client) session_request [] =
     (Checks200
        \<lparr> report_MFA =
            [\<lparr> mfa_id = ''u1'', mfa_email = Some ''ann@example.com'', mfa_enabled = True \<rparr>,
             \<lparr> mfa_id = ''u2'', mfa_email = Some ''bob@example.com'', mfa_enabled = False \<rparr>],
          report_RLS = [\<lparr> rls_enabled = True, has_policies = True, policy_count = 2,
                          table = ''orders'' \<rparr>],
          report_PITR = True,
          report_logs = recent_logs
            [security_log_row MFA True (Some ''ann@example.com''),
             security_log_row MFA False (Some ''bob@example.com''),
             security_log_row RLS True (Some ''orders''),
             security_log_row PITR True None] \<rparr>,
      [security_log_row MFA True (Some ''ann@example.com''),
       security_log_row MFA False (Some ''bob@example.com''),
       security_log_row RLS True (Some ''orders''),
       security_log_row PITR True None])"
  by (simp add: run_checks_GET_def run_checks_try_def checkRLSStatus_def platform_of_def
      session_request_def scenario_A_client_def mfa_result_of_def rls_result_of_def
      logSecurityIssue_def Let_def)

text \<open>
  The system prompt, spelled out: the persona sentence, the reference block after
  \<open>Current context:\<close>, the resource line when a non-empty name is given, and the closing
  instruction. Each reference block opens with the heading of its category.
\<close>

lemma systemPrompt_without_resource:
  "falsy r \<Longrightarrow> systemPrompt f r =
     ''You are a Supabase security expert assistant. You help users fix security issues and implement best practices.''
     @ CHR 0x0A # ''    Current context: '' @ securityDocs f
     @ CHR 0x0A # ''    ''
     @ CHR 0x0A # ''    ''
     @ CHR 0x0A # ''    Provide specific, actionable advice based on Supabase documentation. Include code examples when relevant.''"
  by (simp add: systemPrompt_def)

lemma systemPrompt_with_resource:
  "n \<noteq> [] \<Longrightarrow> systemPrompt f (Some n) =
     ''You are a Supabase security expert assistant. You help users fix security issues and implement best practices.''
     @ CHR 0x0A # ''    Current context: '' @ securityDocs f
     @ CHR 0x0A # ''    Specifically for resource: '' @ n
     @ CHR 0x0A # ''    ''
     @ CHR 0x0A # ''    Provide specific, actionable advice based on Supabase documentation. Include code examples when relevant.''"
  by (simp add: systemPrompt_def)

lemma securityDocs_headings:
  "prefix (CHR 0x0A # ''    Enabling Row Level Security (RLS) in Supabase Dashboard:'') (securityDocs RLS)"
  "prefix (CHR 0x0A # ''    Setting up Multi-Factor Authentication (MFA) in Supabase:'') (securityDocs MFA)"
  "prefix (CHR 0x0A # ''    Enabling Point in Time Recovery (PITR) in Supabase:'') (securityDocs PITR)"
  by simp_all

lemma securityDocs_lengths:
  "length (securityDocs RLS) = 551" "length (securityDocs MFA) = 485" "length (securityDocs PITR) = 330"
  by simp_all

section \<open>Provider failures and the run\<close>

text \<open>
  Claim C1, as amended. With both session cookies present and an RLS response that
  carries an error or data: when the listing of principals reports no error the run
  returns a report, in which an RLS error has become the fixed failing fallback finding
  and a PITR probe without data has become \<open>false\<close>; when the listing reports any error,
  whether an authentication failure or not, the run is aborted with a 500 response that
  carries the error, and nothing is logged.
\<close>

theorem provider_errors_degrade:
  assumes "cookies req ''projectUrl'' = Some u" "u \<noteq> []"
    and "cookies req ''serviceKey'' = Some k" "k \<noteq> []"
    and "error (rpc_check_rls_status (cc u k)) \<noteq> None \<or> data (rpc_check_rls_status (cc u k)) \<noteq> None"
  shows "(error (listUsers (cc u k)) = None \<longrightarrow>
            (\<exists>rep logs'. run_checks_GET cc req logs = (Checks200 rep, logs') \<and>
               (error (rpc_check_rls_status (cc u k)) \<noteq> None \<longrightarrow> report_RLS rep = rls_fallback) \<and>
               (data (rpc_check_pitr_status (cc u k)) = None \<longrightarrow> \<not> report_PITR rep))) \<and>
         (\<forall>e. error (listUsers (cc u k)) = Some e \<longrightarrow>
            run_checks_GET cc req logs = (ChecksFailed500 (message e) e, logs))"
proof (intro conjI impI allI)
  assume ok: "error (listUsers (cc u k)) = None"
  let ?logs1 = "log_mfa_results (map mfa_result_of (users (data (listUsers (cc u k))))) logs"
  obtain fs logs2 where rls: "checkRLSStatus (cc u k) ?logs1 = (Inr fs, logs2)"
    and fb: "error (rpc_check_rls_status (cc u k)) \<noteq> None \<longrightarrow> fs = rls_fallback"
  proof (cases "error (rpc_check_rls_status (cc u k))")
    case None
    with assms(5) obtain rows where "data (rpc_check_rls_status (cc u k)) = Some rows" by auto
    with None that show ?thesis by (simp add: checkRLSStatus_rows)
  next
    case (Some e)
    with that show ?thesis by (simp add: checkRLSStatus_error)
  qed
  from run_checks_try_report [OF ok rls]
  have "run_checks_GET cc req logs =
      (Checks200 \<lparr> report_MFA = map mfa_result_of (users (data (listUsers (cc u k)))),
            report_RLS = fs,
            report_PITR = pitr_flag (data (rpc_check_pitr_status (cc u k))),
            report_logs = select_security_logs (cc u k)
              (logs2 @ [security_log_row PITR (pitr_flag (data (rpc_check_pitr_status (cc u k)))) None]) \<rparr>,
      logs2 @ [security_log_row PITR (pitr_flag (data (rpc_check_pitr_status (cc u k)))) None])"
    by (simp add: run_checks_GET_session [OF assms(1-4)])
  with fb show "\<exists>rep logs'. run_checks_GET cc req logs = (Checks200 rep, logs') \<and>
       (error (rpc_check_rls_status (cc u k)) \<noteq> None \<longrightarrow> report_RLS rep = rls_fallback) \<and>
       (data (rpc_check_pitr_status (cc u k)) = None \<longrightarrow> \<not> report_PITR rep)"
    by auto
next
  fix e assume "error (listUsers (cc u k)) = Some e"
  then show "run_checks_GET cc req logs = (ChecksFailed500 (message e) e, logs)"
    by (simp add: run_checks_GET_session [OF assms(1-4)] run_checks_try_listing_error)
qed

text \<open>
  The amended claim at scenario B (RLS and PITR both fail, the run still reports) and
  at a platform that rejects the key (the run is aborted).
\<close>

theorem provider_errors_degrade_witness:
  "error (listUsers scenario_B_client) = None \<and>
   error (rpc_check_rls_status scenario_B_client) \<noteq> None \<and>
   data (rpc_check_pitr_status scenario_B_client) = None \<and>
   (\<exists>rep logs'.
      run_checks_GET (platform_of scenario_B_client) session_request [] = (Checks200 rep, logs') \<and>
      report_RLS rep = rls_fallback \<and> \<not> report_PITR rep) \<and>
   run_checks_GET (platform_of rejecting_client) session_request [] =
     (ChecksFailed500 ''Invalid API key'' (UpstreamError ''Invalid API key''), [])"
proof -
  have b: "error (listUsers scenario_B_client) = None"
    "error (rpc_check_rls_status scenario_B_client) \<noteq> None"
    "data (rpc_check_pitr_status scenario_B_client) = None"
    by (simp_all add: scenario_B_client_def)
  have r: "error (listUsers rejecting_client) = Some (UpstreamError ''Invalid API key'')"
    "data (rpc_check_rls_status rejecting_client) \<noteq> None"
    by (simp_all add: rejecting_client_def scenario_A_client_def)
  have ne: "''https://demo.supabase.co'' \<noteq> []" "''service-role-key'' \<noteq> []" by simp_all
  from provider_errors_degrade [of session_request "''https://demo.supabase.co''"
      "''service-role-key''" "platform_of scenario_B_client" "[]",
      OF session_request_cookies(1) ne(1) session_request_cookies(2) ne(2)] b
  have 1: "\<exists>rep logs'.
      run_checks_GET (platform_of scenario_B_client) session_request [] = (Checks200 rep, logs') \<and>
      report_RLS rep = rls_fallback \<and> \<not> report_PITR rep"
    by (simp add: platform_of_def)
  from provider_errors_degrade [of session_request "''https://demo.supabase.co''"
      "''service-role-key''" "platform_of rejecting_client" "[]",
      OF session_request_cookies(1) ne(1) session_request_cookies(2) ne(2)] r
  have 2: "run_checks_GET (platform_of rejecting_client) session_request [] =
     (ChecksFailed500 ''Invalid API key'' (UpstreamError ''Invalid API key''), [])"
    by (simp add: platform_of_def)
  from b 1 2 show ?thesis by simp
qed

text \<open>
  Claim C1 as stated fails for the MFA provider: a listing that fails with a timeout,
  which is no authentication failure, is not turned into a finding. The handler rethrows
  it, and the run ends with a 500 response although the RLS and PITR calls are healthy.
\<close>

theorem listing_failure_aborts_run:
  "run_checks_GET (platform_of listing_timeout_client) session_request [] =
     (ChecksFailed500 ''upstream request timeout'' (UpstreamError ''upstream request timeout''), [])"
  by (simp add: run_checks_GET_def run_checks_try_def platform_of_def session_request_def
      listing_timeout_client_def scenario_A_client_def)

section \<open>One audit record per finding\<close>

text \<open>
  Claim C2 at scenario B. The introspection fails; the report holds the fallback RLS
  finding, but the provider returns before its logging loop, so the run writes the MFA
  row and the PITR row only: three findings, two audit records, none of them for RLS.
\<close>

theorem rls_fallback_not_logged:
  "run_checks_GET (platform_of scenario_B_client) session_request [] =
     (Checks200
        \<lparr> report_MFA = [\<lparr> mfa_id = ''u1'', mfa_email = Some ''ann@example.com'', mfa_enabled = True \<rparr>],
          report_RLS = [\<lparr> rls_enabled = False, has_policies = False, policy_count = 0,
                          table = ''posts_table'' \<rparr>],
          report_PITR = False,
          report_logs = recent_logs
            [security_log_row MFA True (Some ''ann@example.com''),
             security_log_row PITR False None] \<rparr>,
      [security_log_row MFA True (Some ''ann@example.com''),
       security_log_row PITR False None])"
  by (simp add: run_checks_GET_def run_checks_try_def checkRLSStatus_def platform_of_def
      session_request_def scenario_B_client_def mfa_result_of_def rls_fallback_def
      logSecurityIssue_def Let_def)

section \<open>Remediation text and the fixable flag\<close>

text \<open>
  Claim C5. The logger appends exactly one row, built from its arguments. For a failing
  status the row has a remediation text and is marked fixable exactly for RLS; for a
  passing status the remediation text is null. The same holds of every row that a run
  of the handler adds to the table, whatever the platform answers.
\<close>

theorem audit_record_remediation:
  "logSecurityIssue f s r logs = logs @ [security_log_row f s r] \<and>
   feature (security_log_row f s r) = f \<and>
   status (security_log_row f s r) = s \<and>
   resource_name (security_log_row f s r) = r \<and>
   (\<not> s \<longrightarrow> suggested_fix (security_log_row f s r) \<noteq> None \<and>
           auto_fixable (security_log_row f s r) = (f = RLS)) \<and>
   (s \<longrightarrow> suggested_fix (security_log_row f s r) = None) \<and>
   (\<exists>new. snd (run_checks_GET cc req logs) = logs @ new \<and>
      (\<forall>x \<in> set new.
         (\<not> status x \<longrightarrow> suggested_fix x \<noteq> None \<and> auto_fixable x = (feature x = RLS)) \<and>
         (status x \<longrightarrow> suggested_fix x = None)))"
proof -
  from run_checks_GET_appends [of cc req logs] obtain new where
    n: "snd (run_checks_GET cc req logs) = logs @ new"
    and r: "\<forall>x \<in> set new. \<exists>f s r. x = security_log_row f s r"
    by blast
  have "\<forall>x \<in> set new.
         (\<not> status x \<longrightarrow> suggested_fix x \<noteq> None \<and> auto_fixable x = (feature x = RLS)) \<and>
         (status x \<longrightarrow> suggested_fix x = None)"
  proof
    fix x assume "x \<in> set new"
    with r obtain f s r where "x = security_log_row f s r" by blast
    with security_log_row_remediation [of s f r]
    show "(\<not> status x \<longrightarrow> suggested_fix x \<noteq> None \<and> auto_fixable x = (feature x = RLS)) \<and>
         (status x \<longrightarrow> suggested_fix x = None)"
      by (simp only: security_log_row_fields) blast
  qed
  with n have run: "\<exists>new. snd (run_checks_GET cc req logs) = logs @ new \<and>
      (\<forall>x \<in> set new.
         (\<not> status x \<longrightarrow> suggested_fix x \<noteq> None \<and> auto_fixable x = (feature x = RLS)) \<and>
         (status x \<longrightarrow> suggested_fix x = None))"
    by blast
  have row: "logSecurityIssue f s r logs = logs @ [security_log_row f s r]"
    by (simp add: logSecurityIssue_def)
  from security_log_row_remediation [of s f r] security_log_row_fields [of f s r] row run
  show ?thesis by blast
qed

theorem audit_record_remediation_witness:
  "logSecurityIssue MFA False (Some ''a@example.com'') [] =
     [\<lparr> feature = MFA, status = False, resource_name = Some ''a@example.com'',
        suggested_fix = Some ''Enable MFA in authentication settings and require users to set up 2FA'',
        auto_fixable = False \<rparr>] \<and>
   auto_fixable (security_log_row RLS False (Some ''orders'')) \<and>
   suggested_fix (security_log_row RLS False (Some ''orders'')) \<noteq> None \<and>
   \<not> auto_fixable (security_log_row PITR False None) \<and>
   suggested_fix (security_log_row PITR True None) = None \<and>
   map suggested_fix (snd (run_checks_GET (platform_of scenario_A_client) session_request [])) =
     [None, Some (suggestedFixes MFA), None, None]"
  using audit_record_remediation [of MFA False "Some ''a@example.com''" "[]"]
    audit_record_remediation [of RLS False "Some ''orders''" "[]"]
    audit_record_remediation [of PITR False None "[]"]
    audit_record_remediation [of PITR True None "[]" "platform_of scenario_A_client" session_request]
  by (simp add: security_log_row_def scenario_A_result)

section \<open>The fail-closed RLS finding\<close>

text \<open>
  Claim C3, as amended. When the introspection reports an error and the run returns a
  report (both cookies present, the listing of principals without error), the RLS list
  of the report is exactly one finding with \<open>rls_enabled = False\<close>,
  \<open>has_policies = False\<close> and \<open>policy_count = 0\<close>; it carries the fixed label
  \<open>posts_table\<close>, whichever resource the failure concerned.
\<close>

theorem rls_fail_closed_fallback:
  assumes "cookies req ''projectUrl'' = Some u" "u \<noteq> []"
    and "cookies req ''serviceKey'' = Some k" "k \<noteq> []"
    and "error (listUsers (cc u k)) = None"
    and "error (rpc_check_rls_status (cc u k)) = Some e"
  shows "\<exists>rep logs'. run_checks_GET cc req logs = (Checks200 rep, logs') \<and>
           report_RLS rep =
             [\<lparr> rls_enabled = False, has_policies = False, policy_count = 0,
                table = ''posts_table'' \<rparr>]"
proof -
  from assms(6) have "checkRLSStatus (cc u k)
      (log_mfa_results (map mfa_result_of (users (data (listUsers (cc u k))))) logs)
      = (Inr rls_fallback,
         log_mfa_results (map mfa_result_of (users (data (listUsers (cc u k))))) logs)"
    by (rule checkRLSStatus_error)
  from run_checks_try_report [OF assms(5) this] show ?thesis
    by (simp add: run_checks_GET_session [OF assms(1-4)] rls_fallback_def)
qed

text \<open>
  The amended claim at scenario B.
\<close>

theorem rls_fail_closed_fallback_witness:
  "error (rpc_check_rls_status scenario_B_client) =
     Some (UpstreamError ''permission denied for relation logs'') \<and>
   (\<exists>rep logs'.
      run_checks_GET (platform_of scenario_B_client) session_request [] = (Checks200 rep, logs') \<and>
      report_RLS rep =
        [\<lparr> rls_enabled = False, has_policies = False, policy_count = 0,
           table = ''posts_table'' \<rparr>])"
proof -
  have e: "error (rpc_check_rls_status (platform_of scenario_B_client ''https://demo.supabase.co''
             ''service-role-key'')) = Some (UpstreamError ''permission denied for relation logs'')"
    and l: "error (listUsers (platform_of scenario_B_client ''https://demo.supabase.co''
             ''service-role-key'')) = None"
    by (simp_all add: platform_of_def scenario_B_client_def)
  have ne: "''https://demo.supabase.co'' \<noteq> []" "''service-role-key'' \<noteq> []" by simp_all
  from rls_fail_closed_fallback [where cc = "platform_of scenario_B_client" and logs = "[]",
      OF session_request_cookies(1) ne(1) session_request_cookies(2) ne(2) l e] e
  show ?thesis by (simp add: platform_of_def)
qed

text \<open>
  Claim C3 as stated fails on the label: in scenario B the introspection fails on
  relation \<open>logs\<close>, and the report holds a finding for \<open>posts_table\<close> and none for
  \<open>logs\<close>.
\<close>

theorem rls_finding_for_failed_relation_missing:
  "error (rpc_check_rls_status scenario_B_client) =
     Some (UpstreamError ''permission denied for relation logs'') \<and>
   map table (reported_rls (fst (run_checks_GET (platform_of scenario_B_client) session_request [])))
     = [''posts_table''] \<and>
   ''logs'' \<notin> set (map table
       (reported_rls (fst (run_checks_GET (platform_of scenario_B_client) session_request []))))"
  by (simp add: run_checks_GET_def run_checks_try_def checkRLSStatus_def platform_of_def
      session_request_def scenario_B_client_def rls_fallback_def Let_def)

section \<open>A run without valid credentials\<close>

text \<open>
  Claim C4. A request that lacks a session cookie, or carries an empty one, is answered
  by the 401 response before a client is made. With both cookies present, a listing that
  the platform rejects is answered by the 500 response that carries the platform's error.
  Both are error responses without a report, and both leave the log table as it was.
\<close>

theorem unauthenticated_run_short_circuits:
  "(falsy (cookies req ''projectUrl'') \<or> falsy (cookies req ''serviceKey'') \<longrightarrow>
      run_checks_GET cc req logs = (NotAuthenticated401, logs)) \<and>
   (cookies req ''projectUrl'' = Some u \<and> u \<noteq> [] \<and> cookies req ''serviceKey'' = Some k \<and> k \<noteq> [] \<and>
    error (listUsers (cc u k)) = Some e \<longrightarrow>
      run_checks_GET cc req logs = (ChecksFailed500 (message e) e, logs))"
  by (auto simp: run_checks_GET_def Let_def run_checks_try_listing_error)

text \<open>
  Claim C4 at a request without cookies, and at a platform that rejects the key while
  the table already holds a row.
\<close>

theorem unauthenticated_run_short_circuits_witness:
  "run_checks_GET (platform_of scenario_A_client) \<lparr> cookies = Map.empty \<rparr> [] = (NotAuthenticated401, []) \<and>
   run_checks_GET (platform_of rejecting_client) session_request
       [security_log_row PITR True None] =
     (ChecksFailed500 ''Invalid API key'' (UpstreamError ''Invalid API key''),
      [security_log_row PITR True None])"
proof -
  have r: "error (listUsers (platform_of rejecting_client ''https://demo.supabase.co''
             ''service-role-key'')) = Some (UpstreamError ''Invalid API key'')"
    by (simp add: platform_of_def rejecting_client_def)
  from unauthenticated_run_short_circuits [of "\<lparr> cookies = Map.empty \<rparr>"
      "platform_of scenario_A_client" "[]"]
  have 1: "run_checks_GET (platform_of scenario_A_client) \<lparr> cookies = Map.empty \<rparr> [] =
      (NotAuthenticated401, [])"
    by simp
  from unauthenticated_run_short_circuits [of session_request "platform_of rejecting_client"
      "[security_log_row PITR True None]" "''https://demo.supabase.co''" "''service-role-key''"
      "UpstreamError ''Invalid API key''"] r session_request_cookies
  have 2: "run_checks_GET (platform_of rejecting_client) session_request
       [security_log_row PITR True None] =
     (ChecksFailed500 ''Invalid API key'' (UpstreamError ''Invalid API key''),
      [security_log_row PITR True None])"
    by simp
  from 1 2 show ?thesis by simp
qed

section \<open>The logged status of an RLS finding\<close>

text \<open>
  When the introspection reports no error, the RLS provider appends one row per finding,
  aligned with the findings: each of category RLS, named after the finding's table, with
  status \<open>rls_enabled \<and> has_policies\<close>.
\<close>

lemma rls_rows_audit_status:
  assumes "error (rpc_check_rls_status c) = None"
    and "checkRLSStatus c logs = (Inr fs, logs')"
  shows "\<exists>new. logs' = logs @ new \<and> length new = length fs \<and>
           (\<forall>i<length fs.
              feature (new ! i) = RLS \<and>
              resource_name (new ! i) = Some (table (fs ! i)) \<and>
              status (new ! i) = (rls_enabled (fs ! i) \<and> has_policies (fs ! i)))"
proof -
  from checkRLSStatus_Inr_cases [OF assms(2)] assms(1) obtain rows where
    fs: "fs = map rls_result_of rows"
    and l: "logs' = logs @ map (\<lambda>t. security_log_row RLS (rls_enabled t \<and> has_policies t)
                                 (Some (table_name t))) rows"
    by auto
  show ?thesis
    by (intro exI [of _ "map (\<lambda>t. security_log_row RLS (rls_enabled t \<and> has_policies t)
                                 (Some (table_name t))) rows"])
       (simp add: fs l rls_result_of_def security_log_row_def)
qed

text \<open>
  Claim C6 at scenario B. The introspection fails, and the provider returns the fallback
  finding, which has no policies, without appending any row: the finding that should be
  logged as failing has no audit record at all.
\<close>

theorem rls_fallback_finding_has_no_record:
  "checkRLSStatus scenario_B_client [] =
     (Inr [\<lparr> rls_enabled = False, has_policies = False, policy_count = 0,
             table = ''posts_table'' \<rparr>],
      [])"
  by (simp add: checkRLSStatus_def scenario_B_client_def rls_fallback_def)

section \<open>The policy flag and the policy count\<close>

text \<open>
  Claim C7, as amended. In every report, the \<open>has_policies\<close> flags and the
  \<open>policy_count\<close> values of the RLS findings are those of the upstream rows, copied
  unchanged, or \<open>False\<close> and \<open>0\<close> in the fallback finding. Hence
  \<open>has_policies = (policy_count > 0)\<close> holds for every finding whenever it holds for every
  upstream row.
\<close>

theorem rls_flags_copied_from_upstream:
  assumes "cookies req ''projectUrl'' = Some u" "cookies req ''serviceKey'' = Some k"
    and "run_checks_GET cc req logs = (Checks200 rep, logs')"
  shows "(error (rpc_check_rls_status (cc u k)) = None \<longrightarrow>
            (\<exists>rows. data (rpc_check_rls_status (cc u k)) = Some rows \<and>
               map has_policies (report_RLS rep) = map has_policies rows \<and>
               map policy_count (report_RLS rep) = map policy_count rows)) \<and>
         (error (rpc_check_rls_status (cc u k)) \<noteq> None \<longrightarrow>
            map has_policies (report_RLS rep) = [False] \<and> map policy_count (report_RLS rep) = [0]) \<and>
         ((\<forall>rows t. data (rpc_check_rls_status (cc u k)) = Some rows \<longrightarrow> t \<in> set rows \<longrightarrow>
              has_policies t = (policy_count t > 0)) \<longrightarrow>
          (\<forall>f \<in> set (report_RLS rep). has_policies f = (policy_count f > 0)))"
proof -
  from run_checks_GET_200_cases [OF assms(3)] assms(1,2)
  have "run_checks_try (cc u k) logs = (Inr rep, logs')" by auto
  from run_checks_try_Inr_cases [OF this] obtain logs2 where
    "checkRLSStatus (cc u k) (log_mfa_results (report_MFA rep) logs) = (Inr (report_RLS rep), logs2)"
    by blast
  from checkRLSStatus_Inr_cases [OF this] show ?thesis
    by (auto simp: rls_result_of_def rls_fallback_def comp_def)
qed

text \<open>
  The amended claim at scenario A.
\<close>

theorem rls_flags_copied_from_upstream_witness:
  "data (rpc_check_rls_status scenario_A_client) =
     Some [\<lparr> rls_enabled = True, has_policies = True, policy_count = 2, table_name = ''orders'' \<rparr>] \<and>
   error (rpc_check_rls_status scenario_A_client) = None \<and>
   map has_policies (reported_rls (fst (run_checks_GET (platform_of scenario_A_client)
      session_request []))) = [True] \<and>
   map policy_count (reported_rls (fst (run_checks_GET (platform_of scenario_A_client)
      session_request []))) = [2]"
proof -
  have d: "data (rpc_check_rls_status scenario_A_client) =
     Some [\<lparr> rls_enabled = True, has_policies = True, policy_count = 2, table_name = ''orders'' \<rparr>]"
    "error (rpc_check_rls_status scenario_A_client) = None"
    by (simp_all add: scenario_A_client_def)
  from rls_flags_copied_from_upstream [OF session_request_cookies scenario_A_result] d
  have "map has_policies (reported_rls (fst (run_checks_GET (platform_of scenario_A_client)
      session_request []))) = [True] \<and>
   map policy_count (reported_rls (fst (run_checks_GET (platform_of scenario_A_client)
      session_request []))) = [2]"
    by (simp add: platform_of_def scenario_A_result)
  with d show ?thesis by simp
qed

text \<open>
  Claim C7 as stated fails: when upstream reports relation \<open>orders\<close> with
  \<open>has_policies = True\<close> and \<open>policy_count = 0\<close>, the report holds exactly that finding.
\<close>

theorem inconsistent_flags_reported:
  "reported_rls (fst (run_checks_GET (platform_of inconsistent_rls_client) session_request [])) =
     [\<lparr> rls_enabled = True, has_policies = True, policy_count = 0, table = ''orders'' \<rparr>]"
  by (simp add: run_checks_GET_def run_checks_try_def checkRLSStatus_def platform_of_def
      session_request_def inconsistent_rls_client_def scenario_A_client_def rls_result_of_def Let_def)

section \<open>MFA findings\<close>

text \<open>
  Claim C8. A report holds one MFA finding per principal of the listing, in the
  listing's order, with the principal's id and email; the finding is enabled exactly when
  the principal has at least one factor (an absent factor list counts as none).
\<close>

theorem mfa_finding_per_principal:
  assumes "cookies req ''projectUrl'' = Some u" "cookies req ''serviceKey'' = Some k"
    and "run_checks_GET cc req logs = (Checks200 rep, logs')"
  shows "length (report_MFA rep) = length (users (data (listUsers (cc u k)))) \<and>
         (\<forall>i < length (users (data (listUsers (cc u k)))).
            mfa_id (report_MFA rep ! i) = user_id (users (data (listUsers (cc u k))) ! i) \<and>
            mfa_email (report_MFA rep ! i) = email (users (data (listUsers (cc u k))) ! i) \<and>
            mfa_enabled (report_MFA rep ! i) =
              (1 \<le> length (case factors (users (data (listUsers (cc u k))) ! i) of
                              None \<Rightarrow> [] | Some fs \<Rightarrow> fs)))"
proof -
  from run_checks_GET_200_cases [OF assms(3)] assms(1,2)
  have "run_checks_try (cc u k) logs = (Inr rep, logs')" by auto
  from run_checks_try_Inr_cases [OF this]
  have "report_MFA rep = map mfa_result_of (users (data (listUsers (cc u k))))" by blast
  then show ?thesis
    by (auto simp: mfa_result_of_def Suc_le_eq split: option.splits)
qed

text \<open>
  Claim C8 at scenario A: one principal with a factor, one with an empty factor list.
\<close>

theorem mfa_finding_per_principal_witness:
  "map factors (users (data (listUsers scenario_A_client))) = [Some [''totp''], Some []] \<and>
   map mfa_enabled (reported_mfa (fst (run_checks_GET (platform_of scenario_A_client)
      session_request []))) = [True, False]"
proof -
  have u: "users (data (listUsers scenario_A_client)) =
      [\<lparr> user_id = ''u1'', email = Some ''ann@example.com'', factors = Some [''totp''] \<rparr>,
       \<lparr> user_id = ''u2'', email = Some ''bob@example.com'', factors = Some [] \<rparr>]"
    by (simp add: scenario_A_client_def)
  note t = mfa_finding_per_principal [OF session_request_cookies scenario_A_result,
      unfolded platform_of_def u]
  from t have l: "length (reported_mfa (fst (run_checks_GET (platform_of scenario_A_client)
      session_request []))) = 2"
    by (simp add: scenario_A_result)
  from t have "mfa_enabled (reported_mfa (fst (run_checks_GET (platform_of scenario_A_client)
      session_request [])) ! 0) = True"
    and "mfa_enabled (reported_mfa (fst (run_checks_GET (platform_of scenario_A_client)
      session_request [])) ! 1) = False"
    by (simp_all add: scenario_A_result)
  with l u show ?thesis by (simp add: scenario_A_result)
qed

section \<open>The remediation assistant: request and reply\<close>

text \<open>
  Claim C9, as amended. The message list sent to the capability is one system message
  followed by the role and content of every transcript entry, in the transcript's order.
  The system message is not the reference block alone: it is the fixed prompt made of the
  persona sentence, the line \<open>Current context:\<close> with the reference block of the category,
  the line \<open>Specifically for resource:\<close> with the name when a non-empty name is supplied
  (an empty line otherwise), and the closing instruction. Each reference block opens with
  the heading of its own category. When the capability answers with at least one choice,
  the reply is the content of the first choice, unchanged. The handler is a function of
  the capability and the request: it keeps nothing between calls.
\<close>

theorem assistant_request_and_reply:
  "request_messages (chat_request_of body) =
     \<lparr> role = ''system'', content = systemPrompt (chat_feature body) (chat_resourceName body) \<rparr>
     # map (\<lambda>m. \<lparr> role = role m, content = content m \<rparr>) (chat_messages body) \<and>
   (\<forall>i < length (chat_messages body).
      role (request_messages (chat_request_of body) ! Suc i) = role (chat_messages body ! i) \<and>
      content (request_messages (chat_request_of body) ! Suc i) = content (chat_messages body ! i)) \<and>
   (falsy (chat_resourceName body) \<longrightarrow>
      content (hd (request_messages (chat_request_of body))) =
        ''You are a Supabase security expert assistant. You help users fix security issues and implement best practices.''
        @ CHR 0x0A # ''    Current context: '' @ securityDocs (chat_feature body)
        @ CHR 0x0A # ''    ''
        @ CHR 0x0A # ''    ''
        @ CHR 0x0A # ''    Provide specific, actionable advice based on Supabase documentation. Include code examples when relevant.'') \<and>
   (\<forall>n. chat_resourceName body = Some n \<and> n \<noteq> [] \<longrightarrow>
      content (hd (request_messages (chat_request_of body))) =
        ''You are a Supabase security expert assistant. You help users fix security issues and implement best practices.''
        @ CHR 0x0A # ''    Current context: '' @ securityDocs (chat_feature body)
        @ CHR 0x0A # ''    Specifically for resource: '' @ n
        @ CHR 0x0A # ''    ''
        @ CHR 0x0A # ''    Provide specific, actionable advice based on Supabase documentation. Include code examples when relevant.'') \<and>
   prefix (CHR 0x0A # ''    Enabling Row Level Security (RLS) in Supabase Dashboard:'') (securityDocs RLS) \<and>
   prefix (CHR 0x0A # ''    Setting up Multi-Factor Authentication (MFA) in Supabase:'') (securityDocs MFA) \<and>
   prefix (CHR 0x0A # ''    Enabling Point in Time Recovery (PITR) in Supabase:'') (securityDocs PITR) \<and>
   length (securityDocs RLS) = 551 \<and> length (securityDocs MFA) = 485 \<and>
   length (securityDocs PITR) = 330 \<and>
   (\<forall>c ch rest. create (chat_request_of body) = Inr c \<and> choices c = ch # rest \<longrightarrow>
      security_chat_POST create (Inr body) = ChatMessage200 (content (choice_message ch)))"
proof -
  have msgs: "request_messages (chat_request_of body) =
     \<lparr> role = ''system'', content = systemPrompt (chat_feature body) (chat_resourceName body) \<rparr>
     # map (\<lambda>m. \<lparr> role = role m, content = content m \<rparr>) (chat_messages body)"
    by (simp add: chat_request_of_def)
  have order: "\<forall>i < length (chat_messages body).
      role (request_messages (chat_request_of body) ! Suc i) = role (chat_messages body ! i) \<and>
      content (request_messages (chat_request_of body) ! Suc i) = content (chat_messages body ! i)"
    by (simp add: msgs)
  have seed: "content (hd (request_messages (chat_request_of body))) =
      systemPrompt (chat_feature body) (chat_resourceName body)"
    by (simp add: msgs)
  have reply: "\<forall>c ch rest. create (chat_request_of body) = Inr c \<and> choices c = ch # rest \<longrightarrow>
      security_chat_POST create (Inr body) = ChatMessage200 (content (choice_message ch))"
    by (simp add: security_chat_POST_def)
  have plain: "falsy (chat_resourceName body) \<longrightarrow>
      content (hd (request_messages (chat_request_of body))) =
        ''You are a Supabase security expert assistant. You help users fix security issues and implement best practices.''
        @ CHR 0x0A # ''    Current context: '' @ securityDocs (chat_feature body)
        @ CHR 0x0A # ''    ''
        @ CHR 0x0A # ''    ''
        @ CHR 0x0A # ''    Provide specific, actionable advice based on Supabase documentation. Include code examples when relevant.''"
    unfolding seed using systemPrompt_without_resource by blast
  have named: "\<forall>n. chat_resourceName body = Some n \<and> n \<noteq> [] \<longrightarrow>
      content (hd (request_messages (chat_request_of body))) =
        ''You are a Supabase security expert assistant. You help users fix security issues and implement best practices.''
        @ CHR 0x0A # ''    Current context: '' @ securityDocs (chat_feature body)
        @ CHR 0x0A # ''    Specifically for resource: '' @ n
        @ CHR 0x0A # ''    ''
        @ CHR 0x0A # ''    Provide specific, actionable advice based on Supabase documentation. Include code examples when relevant.''"
  proof (intro allI impI)
    fix n assume "chat_resourceName body = Some n \<and> n \<noteq> []"
    then have n: "chat_resourceName body = Some n" "n \<noteq> []" by simp_all
    from systemPrompt_with_resource [OF n(2), of "chat_feature body"]
    show "content (hd (request_messages (chat_request_of body))) =
        ''You are a Supabase security expert assistant. You help users fix security issues and implement best practices.''
        @ CHR 0x0A # ''    Current context: '' @ securityDocs (chat_feature body)
        @ CHR 0x0A # ''    Specifically for resource: '' @ n
        @ CHR 0x0A # ''    ''
        @ CHR 0x0A # ''    Provide specific, actionable advice based on Supabase documentation. Include code examples when relevant.''"
      unfolding seed n(1) .
  qed
  from msgs order plain named securityDocs_headings securityDocs_lengths reply
  show ?thesis by blast
qed

text \<open>
  The amended claim at a chat turn about relation \<open>orders\<close> and at a first turn about
  PITR without a resource: the whole system message, line by line.
\<close>

theorem assistant_request_and_reply_witness:
  \<open>map role (request_messages (chat_request_of orders_chat_body)) =
     [''system'', ''assistant'', ''user''] \<and>
   map content (tl (request_messages (chat_request_of orders_chat_body))) =
     [''I am here to help you enable RLS for orders.'', ''Where do I switch it on?''] \<and>
   content (hd (request_messages (chat_request_of orders_chat_body))) = js_lines
     [''You are a Supabase security expert assistant. You help users fix security issues and implement best practices.'',
      ''    Current context: '',
      ''    Enabling Row Level Security (RLS) in Supabase Dashboard:'',
      ''    1. Navigate to Authentication > Policies in your Supabase dashboard'',
      ''    2. Find the table you want to secure'',
      ''    3. Click "Enable RLS" button'',
      ''    4. Add policies through the UI:'',
      ''       - Click "New Policy"'',
      ''       - Use policy templates or create custom ones'',
      ''       - Set who can access what data'',
      ''    '',
      ''    Common settings:'',
      ''    - Enable read-only access'',
      ''    - Allow authenticated users only'',
      ''    - Enable full access for authenticated users'',
      ''    - Custom policy with specific conditions'',
      ''  '',
      ''    Specifically for resource: orders'',
      ''    '',
      ''    Provide specific, actionable advice based on Supabase documentation. Include code examples when relevant.''] \<and>
   content (hd (request_messages (chat_request_of pitr_chat_body))) = js_lines
     [''You are a Supabase security expert assistant. You help users fix security issues and implement best practices.'',
      ''    Current context: '',
      ''    Enabling Point in Time Recovery (PITR) in Supabase:'',
      ''    1. Go to Database > Backups in dashboard'',
      ''    2. Find PITR section'',
      ''    3. Enable PITR feature'',
      ''    4. Select retention period'',
      ''    '',
      ''    Dashboard options:'',
      ''    - Backup frequency'',
      ''    - Retention period selection'',
      ''    - Recovery point status'',
      ''    - Backup health monitoring'',
      ''  '',
      ''    '',
      ''    '',
      ''    Provide specific, actionable advice based on Supabase documentation. Include code examples when relevant.''] \<and>
   security_chat_POST canned_completion (Inr orders_chat_body) =
     ChatMessage200 ''Open Authentication > Policies.''\<close>
proof -
  have b: "chat_feature orders_chat_body = RLS" "chat_resourceName orders_chat_body = Some ''orders''"
    "chat_messages orders_chat_body =
         [\<lparr> role = ''assistant'', content = ''I am here to help you enable RLS for orders.'',
            timestamp = ''2024-05-01T10:00:00Z'' \<rparr>,
          \<lparr> role = ''user'', content = ''Where do I switch it on?'',
            timestamp = ''2024-05-01T10:00:30Z'' \<rparr>]"
    by (simp_all add: orders_chat_body_def)
  have q: "chat_feature pitr_chat_body = PITR" "chat_resourceName pitr_chat_body = None"
    by (simp_all add: pitr_chat_body_def)
  note t = assistant_request_and_reply [of orders_chat_body canned_completion, unfolded b]
  note u = assistant_request_and_reply [of pitr_chat_body canned_completion, unfolded q]
  from t have m: "request_messages (chat_request_of orders_chat_body) =
     [\<lparr> role = ''system'', content = systemPrompt RLS (Some ''orders'') \<rparr>,
      \<lparr> role = ''assistant'', content = ''I am here to help you enable RLS for orders.'' \<rparr>,
      \<lparr> role = ''user'', content = ''Where do I switch it on?'' \<rparr>]"
    by simp
  from t have "content (hd (request_messages (chat_request_of orders_chat_body))) =
        ''You are a Supabase security expert assistant. You help users fix security issues and implement best practices.''
        @ CHR 0x0A # ''    Current context: '' @ securityDocs RLS
        @ CHR 0x0A # ''    Specifically for resource: '' @ ''orders''
        @ CHR 0x0A # ''    ''
        @ CHR 0x0A # ''    Provide specific, actionable advice based on Supabase documentation. Include code examples when relevant.''"
    by blast
  then have s1: \<open>content (hd (request_messages (chat_request_of orders_chat_body))) = js_lines
     [''You are a Supabase security expert assistant. You help users fix security issues and implement best practices.'',
      ''    Current context: '',
      ''    Enabling Row Level Security (RLS) in Supabase Dashboard:'',
      ''    1. Navigate to Authentication > Policies in your Supabase dashboard'',
      ''    2. Find the table you want to secure'',
      ''    3. Click "Enable RLS" button'',
      ''    4. Add policies through the UI:'',
      ''       - Click "New Policy"'',
      ''       - Use policy templates or create custom ones'',
      ''       - Set who can access what data'',
      ''    '',
      ''    Common settings:'',
      ''    - Enable read-only access'',
      ''    - Allow authenticated users only'',
      ''    - Enable full access for authenticated users'',
      ''    - Custom policy with specific conditions'',
      ''  '',
      ''    Specifically for resource: orders'',
      ''    '',
      ''    Provide specific, actionable advice based on Supabase documentation. Include code examples when relevant.'']\<close>
    by simp
  from u have "falsy None \<longrightarrow> content (hd (request_messages (chat_request_of pitr_chat_body))) =
        ''You are a Supabase security expert assistant. You help users fix security issues and implement best practices.''
        @ CHR 0x0A # ''    Current context: '' @ securityDocs PITR
        @ CHR 0x0A # ''    ''
        @ CHR 0x0A # ''    ''
        @ CHR 0x0A # ''    Provide specific, actionable advice based on Supabase documentation. Include code examples when relevant.''"
    by blast
  then have s2: "content (hd (request_messages (chat_request_of pitr_chat_body))) = js_lines
     [''You are a Supabase security expert assistant. You help users fix security issues and implement best practices.'',
      ''    Current context: '',
      ''    Enabling Point in Time Recovery (PITR) in Supabase:'',
      ''    1. Go to Database > Backups in dashboard'',
      ''    2. Find PITR section'',
      ''    3. Enable PITR feature'',
      ''    4. Select retention period'',
      ''    '',
      ''    Dashboard options:'',
      ''    - Backup frequency'',
      ''    - Retention period selection'',
      ''    - Recovery point status'',
      ''    - Backup health monitoring'',
      ''  '',
      ''    '',
      ''    '',
      ''    Provide specific, actionable advice based on Supabase documentation. Include code examples when relevant.'']"
    by simp
  from t have p: "security_chat_POST canned_completion (Inr orders_chat_body) =
     ChatMessage200 ''Open Authentication > Policies.''"
    by (simp add: canned_completion_def)
  from m s1 s2 p show ?thesis by simp
qed

text \<open>
  Claim C9 as stated fails: for a PITR session without a resource the system message
  sent is not the PITR reference block; it starts with the persona sentence.
\<close>

theorem system_message_is_not_the_block:
  "request_messages (chat_request_of pitr_chat_body) =
     [\<lparr> role = ''system'', content = systemPrompt PITR None \<rparr>] \<and>
   systemPrompt PITR None \<noteq> securityDocs PITR \<and>
   prefix ''You are a Supabase security expert assistant.'' (systemPrompt PITR None)"
  by (simp add: chat_request_of_def pitr_chat_body_def systemPrompt_def)


section \<open>Login\<close>

text \<open>
  Claim C10. A body with a non-empty project URL and a non-empty service key is answered
  by the 200 response that sets both values as cookies; a body in which either is absent
  or empty is answered by the 400 response, which sets no cookie. The handler has no
  access to the platform, so the success says nothing about the credentials.
\<close>

theorem login_stores_unchecked_credentials:
  "(projectUrl body = Some u \<and> u \<noteq> [] \<and> serviceKey body = Some k \<and> k \<noteq> [] \<longrightarrow>
      login_POST env (Inr body) =
        \<lparr> login_status = 200, login_json = (''message'', ''Login successful''),
          set_cookies =
            [\<lparr> cookie_name = ''projectUrl'', cookie_value = u, httpOnly = True,
               secure = (env = Some ''production''), sameSite = ''lax'', path = ''/'' \<rparr>,
             \<lparr> cookie_name = ''serviceKey'', cookie_value = k, httpOnly = True,
               secure = (env = Some ''production''), sameSite = ''lax'', path = ''/'' \<rparr>] \<rparr>) \<and>
   (falsy (projectUrl body) \<or> falsy (serviceKey body) \<longrightarrow>
      login_POST env (Inr body) =
        \<lparr> login_status = 400, login_json = (''error'', ''Missing credentials''), set_cookies = [] \<rparr>)"
  by (auto simp: login_POST_def session_cookie_def)

text \<open>
  Claim C10: a login that succeeds with a key the platform rejects at the next run, and
  two logins with a missing and with an empty value.
\<close>

theorem login_stores_unchecked_credentials_witness:
  "login_POST (Some ''production'')
      (Inr \<lparr> projectUrl = Some ''https://demo.supabase.co'', serviceKey = Some ''service-role-key'' \<rparr>) =
     \<lparr> login_status = 200, login_json = (''message'', ''Login successful''),
       set_cookies =
         [\<lparr> cookie_name = ''projectUrl'', cookie_value = ''https://demo.supabase.co'', httpOnly = True,
            secure = True, sameSite = ''lax'', path = ''/'' \<rparr>,
          \<lparr> cookie_name = ''serviceKey'', cookie_value = ''service-role-key'', httpOnly = True,
            secure = True, sameSite = ''lax'', path = ''/'' \<rparr>] \<rparr> \<and>
   fst (run_checks_GET (platform_of rejecting_client) session_request []) =
     ChecksFailed500 ''Invalid API key'' (UpstreamError ''Invalid API key'') \<and>
   login_POST None (Inr \<lparr> projectUrl = Some ''https://demo.supabase.co'', serviceKey = None \<rparr>) =
     \<lparr> login_status = 400, login_json = (''error'', ''Missing credentials''), set_cookies = [] \<rparr> \<and>
   login_POST None (Inr \<lparr> projectUrl = Some [], serviceKey = Some ''service-role-key'' \<rparr>) =
     \<lparr> login_status = 400, login_json = (''error'', ''Missing credentials''), set_cookies = [] \<rparr>"
proof -
  from login_stores_unchecked_credentials [of
      "\<lparr> projectUrl = Some ''https://demo.supabase.co'', serviceKey = Some ''service-role-key'' \<rparr>"
      "''https://demo.supabase.co''" "''service-role-key''" "Some ''production''"]
  have 1: "login_POST (Some ''production'')
      (Inr \<lparr> projectUrl = Some ''https://demo.supabase.co'', serviceKey = Some ''service-role-key'' \<rparr>) =
     \<lparr> login_status = 200, login_json = (''message'', ''Login successful''),
       set_cookies =
         [\<lparr> cookie_name = ''projectUrl'', cookie_value = ''https://demo.supabase.co'', httpOnly = True,
            secure = True, sameSite = ''lax'', path = ''/'' \<rparr>,
          \<lparr> cookie_name = ''serviceKey'', cookie_value = ''service-role-key'', httpOnly = True,
            secure = True, sameSite = ''lax'', path = ''/'' \<rparr>] \<rparr>"
    by simp
  have 2: "fst (run_checks_GET (platform_of rejecting_client) session_request []) =
     ChecksFailed500 ''Invalid API key'' (UpstreamError ''Invalid API key'')"
    by (simp add: run_checks_GET_def run_checks_try_def platform_of_def session_request_def
      rejecting_client_def scenario_A_client_def)
  from login_stores_unchecked_credentials [of
      "\<lparr> projectUrl = Some ''https://demo.supabase.co'', serviceKey = None \<rparr>" _ _ None]
  have 3: "login_POST None (Inr \<lparr> projectUrl = Some ''https://demo.supabase.co'', serviceKey = None \<rparr>) =
     \<lparr> login_status = 400, login_json = (''error'', ''Missing credentials''), set_cookies = [] \<rparr>"
    by simp
  from login_stores_unchecked_credentials [of
      "\<lparr> projectUrl = Some [], serviceKey = Some ''service-role-key'' \<rparr>" _ _ None]
  have 4: "login_POST None (Inr \<lparr> projectUrl = Some [], serviceKey = Some ''service-role-key'' \<rparr>) =
     \<lparr> login_status = 400, login_json = (''error'', ''Missing credentials''), set_cookies = [] \<rparr>"
    by simp
  from 1 2 3 4 show ?thesis by simp
qed

end
